theory Spec2Isabelle
  imports Complex_Main "HOL-Library.Word" "HOL-Library.Sublist"
begin

section \<open>Numbers and exceptions\<close>

text \<open>
  The module \<^verbatim>\<open>descriptors/rectangularity/rectangularity.py\<close> computes with Python floats,
  NumPy scalars and OpenCV results. In the four methods that work on a contour, finite
  floating-point values are idealised as real numbers (no rounding, no overflow, no
  signed zero). What the two number systems do differently at a zero divisor is kept:
  Python's \<^verbatim>\<open>/\<close> on floats raises \<^verbatim>\<open>ZeroDivisionError\<close>, \<^verbatim>\<open>math.sqrt\<close> of a negative number
  raises \<^verbatim>\<open>ValueError\<close>, and NumPy's scalar division returns an infinity or a NaN (with
  a warning only). The Moments method is computed in double precision, with the rounding
  of every operation (see below): what it returns depends on that rounding.
\<close>

datatype error = IndexError | ValueError | ZeroDivisionError | OverflowError

datatype fl = Fin real | PInf | NInf | NaN

definition py_sqrt :: "real \<Rightarrow> error + real" where
  "py_sqrt v = (if v < 0 then Inl ValueError else Inr (sqrt v))"

definition py_div :: "real \<Rightarrow> real \<Rightarrow> error + real" where
  "py_div a b = (if b = 0 then Inl ZeroDivisionError else Inr (a / b))"

fun fl_neg :: "fl \<Rightarrow> fl" where
  "fl_neg (Fin a) = Fin (- a)"
| "fl_neg PInf = NInf"
| "fl_neg NInf = PInf"
| "fl_neg NaN = NaN"

fun fl_add :: "fl \<Rightarrow> fl \<Rightarrow> fl" where
  "fl_add (Fin a) (Fin b) = Fin (a + b)"
| "fl_add NaN _ = NaN"
| "fl_add _ NaN = NaN"
| "fl_add PInf NInf = NaN"
| "fl_add NInf PInf = NaN"
| "fl_add PInf _ = PInf"
| "fl_add _ PInf = PInf"
| "fl_add NInf _ = NInf"
| "fl_add _ NInf = NInf"

definition fl_sub :: "fl \<Rightarrow> fl \<Rightarrow> fl" where
  "fl_sub a b = fl_add a (fl_neg b)"

fun fl_abs :: "fl \<Rightarrow> fl" where
  "fl_abs (Fin a) = Fin \<bar>a\<bar>"
| "fl_abs PInf = PInf"
| "fl_abs NInf = PInf"
| "fl_abs NaN = NaN"

text \<open>NumPy's true division of two scalars; a zero divisor is taken as \<open>+0\<close>.\<close>

fun np_div :: "fl \<Rightarrow> fl \<Rightarrow> fl" where
  "np_div (Fin a) (Fin b) =
     (if b \<noteq> 0 then Fin (a / b)
      else if 0 < a then PInf else if a < 0 then NInf else NaN)"
| "np_div NaN _ = NaN"
| "np_div _ NaN = NaN"
| "np_div (Fin a) _ = Fin 0"
| "np_div PInf (Fin b) = (if b < 0 then NInf else PInf)"
| "np_div NInf (Fin b) = (if b < 0 then PInf else NInf)"
| "np_div _ _ = NaN"

text \<open>The comparison \<^verbatim>\<open>a > b\<close>; every comparison with a NaN is false.\<close>

fun fl_gt :: "fl \<Rightarrow> fl \<Rightarrow> bool" where
  "fl_gt (Fin a) (Fin b) = (b < a)"
| "fl_gt NaN _ = False"
| "fl_gt _ NaN = False"
| "fl_gt PInf PInf = False"
| "fl_gt PInf _ = True"
| "fl_gt _ PInf = False"
| "fl_gt NInf _ = False"
| "fl_gt _ NInf = True"

text \<open>The comparison \<^verbatim>\<open>a <= b\<close>.\<close>

fun fl_le :: "fl \<Rightarrow> fl \<Rightarrow> bool" where
  "fl_le (Fin a) (Fin b) = (a \<le> b)"
| "fl_le NaN _ = False"
| "fl_le _ NaN = False"
| "fl_le NInf _ = True"
| "fl_le _ PInf = True"
| "fl_le PInf _ = False"
| "fl_le _ NInf = False"

subsection \<open>Double precision\<close>

text \<open>
  An IEEE 754 double has a significand of 53 bits and an exponent from -1022 to 1023.
  \<open>round_double\<close> rounds a real number to the nearest double, a tie to the one with an
  even significand: the spacing of the doubles around \<open>x\<close> is \<open>2\<close> to the power
  \<open>double_exponent x - 52\<close>, the exponent being that of \<open>x\<close> and at least -1022 (below it,
  the subnormal numbers), and a result beyond the largest double is an infinity. The sign
  of a zero is not kept.
\<close>

definition round_half_even :: "real \<Rightarrow> int" where
  "round_half_even y =
     (let f = \<lfloor>y\<rfloor>; d = y - of_int f
      in if d < 1 / 2 then f else if 1 / 2 < d then f + 1 else if even f then f else f + 1)"

definition double_exponent :: "real \<Rightarrow> int" where
  "double_exponent x = max \<lfloor>log 2 \<bar>x\<bar>\<rfloor> (- 1022)"

definition max_double :: real where
  "max_double = (2 ^ 53 - 1) * 2 ^ 971"

definition round_double :: "real \<Rightarrow> fl" where
  "round_double x =
     (if x = 0 then Fin 0
      else
        let u = 2 powr (of_int (double_exponent x) - 52);
            r = u * of_int (round_half_even (x / u))
        in if max_double < r then PInf else if r < - max_double then NInf else Fin r)"

text \<open>The product and the quotient of two doubles, as IEEE 754 defines them.\<close>

fun ieee_mul :: "fl \<Rightarrow> fl \<Rightarrow> fl" where
  "ieee_mul (Fin a) (Fin b) = round_double (a * b)"
| "ieee_mul NaN _ = NaN"
| "ieee_mul _ NaN = NaN"
| "ieee_mul (Fin a) PInf = (if a = 0 then NaN else if 0 < a then PInf else NInf)"
| "ieee_mul (Fin a) NInf = (if a = 0 then NaN else if 0 < a then NInf else PInf)"
| "ieee_mul PInf (Fin b) = (if b = 0 then NaN else if 0 < b then PInf else NInf)"
| "ieee_mul NInf (Fin b) = (if b = 0 then NaN else if 0 < b then NInf else PInf)"
| "ieee_mul PInf PInf = PInf"
| "ieee_mul NInf NInf = PInf"
| "ieee_mul PInf NInf = NInf"
| "ieee_mul NInf PInf = NInf"

fun ieee_div :: "fl \<Rightarrow> fl \<Rightarrow> fl" where
  "ieee_div (Fin a) (Fin b) =
     (if b \<noteq> 0 then round_double (a / b)
      else if 0 < a then PInf else if a < 0 then NInf else NaN)"
| "ieee_div NaN _ = NaN"
| "ieee_div _ NaN = NaN"
| "ieee_div (Fin a) _ = Fin 0"
| "ieee_div PInf (Fin b) = (if b < 0 then NInf else PInf)"
| "ieee_div NInf (Fin b) = (if b < 0 then PInf else NInf)"
| "ieee_div _ _ = NaN"

text \<open>
  A float is a Python float or a NumPy scalar. They differ where Python raises: a Python
  float raises \<^verbatim>\<open>ZeroDivisionError\<close> when it is divided by zero and \<^verbatim>\<open>OverflowError\<close> when a
  power of a finite number overflows, where NumPy returns an infinity or a NaN. The
  power \<^verbatim>\<open>x ** 3\<close> is taken as correctly rounded.
\<close>

datatype number_kind = PythonFloat | NumPyFloat

definition float_div :: "number_kind \<Rightarrow> fl \<Rightarrow> fl \<Rightarrow> error + fl" where
  "float_div k a b =
     (if k = PythonFloat \<and> b = Fin 0 then Inl ZeroDivisionError else Inr (ieee_div a b))"

definition float_pow3 :: "number_kind \<Rightarrow> fl \<Rightarrow> error + fl" where
  "float_pow3 k a =
     (case a of
        Fin x \<Rightarrow>
          (case round_double (x ^ 3) of
             Fin r \<Rightarrow> Inr (Fin r)
           | NaN \<Rightarrow> Inr NaN
           | v \<Rightarrow> if k = PythonFloat then Inl OverflowError else Inr v)
      | _ \<Rightarrow> Inr a)"

subsection \<open>Unsigned integers\<close>

text \<open>
  \<^verbatim>\<open>np.sum\<close> of an 8-bit array is a 64-bit unsigned integer, and the difference of two
  of them wraps around.
\<close>

definition u64_sub :: "nat \<Rightarrow> nat \<Rightarrow> nat" where
  "u64_sub a b = (if b \<le> a then a - b else a + 2 ^ 64 - b)"

definition res_bind :: "error + 'a \<Rightarrow> ('a \<Rightarrow> error + 'b) \<Rightarrow> error + 'b" where
  "res_bind r f = (case r of Inl e \<Rightarrow> Inl e | Inr v \<Rightarrow> f v)"

section \<open>Images, contours and the libraries\<close>

text \<open>
  An image is an 8-bit single-channel array, a list of rows. A contour is the list of
  its points \<open>(x, y)\<close>, \<open>x\<close> the column and \<open>y\<close> the row, as OpenCV gives them.
\<close>

type_synonym pixel = "8 word"
type_synonym image = "pixel list list"
type_synonym point = "int \<times> int"
type_synonym contour = "point list"
type_synonym rotated_rect = "(real \<times> real) \<times> (real \<times> real) \<times> real"

text \<open>The entries of the dictionary of \<^verbatim>\<open>cv.moments\<close> that the module reads.\<close>

record cv_moment_dict =
  m00 :: real
  mu20 :: real
  mu02 :: real
  mu11 :: real

text \<open>
  Modelled from the spec: \<^verbatim>\<open>descriptors.utils.moments.moments\<close> is imported by the module
  and its source is not part of the files at hand. The spec describes its result as the
  moment set of the mask, with \<open>m00\<close> the foreground pixel count and \<open>mu22\<close> the
  fourth-order central product moment; these are the two entries the module reads, taken
  here as doubles. The function itself is a parameter (\<open>moments\<close> below), and so is the
  kind of float it returns (\<open>helper_numbers\<close> below), which the module does not decide.
\<close>

record moment_set =
  ms_m00 :: fl
  ms_mu22 :: fl

text \<open>
  The functions of OpenCV, imutils and the moments helper are parameters of the model:
  \<^item> \<open>findContours\<close>: \<^verbatim>\<open>cv.findContours(image, RETR_EXTERNAL, CHAIN_APPROX_SIMPLE)[0]\<close>;
  \<^item> \<open>cv_moments\<close>, \<open>arcLength\<close> (closed), \<open>minAreaRect\<close>, \<open>boxPoints\<close>;
  \<^item> \<open>poly_covers box (row, col)\<close>: whether \<^verbatim>\<open>cv.fillConvexPoly\<close> paints that pixel for the
    polygon \<open>box\<close>;
  \<^item> \<open>rotate\<close>: \<^verbatim>\<open>imutils.rotate(image, angle)\<close>, which returns a new array;
  \<^item> \<open>moments\<close>: the helper of \<^verbatim>\<open>descriptors.utils.moments\<close>, and \<open>helper_numbers\<close>: whether
    the entries of its result are Python floats or NumPy scalars.
  None of them writes to the array it is given, except \<^verbatim>\<open>cv.fillConvexPoly\<close>, which is
  modelled below as a write.
\<close>

record library =
  findContours :: "image \<Rightarrow> contour list"
  cv_moments :: "contour \<Rightarrow> cv_moment_dict"
  arcLength :: "contour \<Rightarrow> real"
  minAreaRect :: "contour \<Rightarrow> rotated_rect"
  boxPoints :: "rotated_rect \<Rightarrow> (real \<times> real) list"
  poly_covers :: "point list \<Rightarrow> nat \<times> nat \<Rightarrow> bool"
  rotate :: "image \<Rightarrow> int \<Rightarrow> image"
  moments :: "image \<Rightarrow> moment_set"
  helper_numbers :: number_kind

text \<open>\<^verbatim>\<open>np.int0\<close> converts a float to an integer by truncation towards zero.\<close>

definition int0 :: "real \<Rightarrow> int" where
  "int0 v = (if 0 \<le> v then \<lfloor>v\<rfloor> else \<lceil>v\<rceil>)"

definition np_sum :: "image \<Rightarrow> nat" where
  "np_sum img = sum_list (map (\<lambda>row. sum_list (map unat row)) img)"

text \<open>A Python slice \<^verbatim>\<open>xs[lo:hi]\<close>: a negative bound counts from the end, both are clipped.\<close>

definition py_slice :: "int \<Rightarrow> int \<Rightarrow> 'a list \<Rightarrow> 'a list" where
  "py_slice lo hi xs =
     (let n = int (length xs);
          l = (if lo < 0 then max (lo + n) 0 else min lo n);
          h = (if hi < 0 then max (hi + n) 0 else min hi n)
      in drop (nat l) (take (nat h) xs))"

text \<open>\<^verbatim>\<open>image[r0:r1, c0:c1]\<close>: the first slice selects rows, the second columns.\<close>

definition np_slice2 :: "image \<Rightarrow> int \<Rightarrow> int \<Rightarrow> int \<Rightarrow> int \<Rightarrow> image" where
  "np_slice2 img r0 r1 c0 c1 = map (py_slice c0 c1) (py_slice r0 r1 img)"

text \<open>
  \<^verbatim>\<open>cv.boundingRect\<close> of a set of integer points: the corner \<open>(x, y)\<close> with the least
  coordinates, and the width and height in pixels.
\<close>

definition boundingRect :: "contour \<Rightarrow> int \<times> int \<times> int \<times> int" where
  "boundingRect cnt =
     (case cnt of
        [] \<Rightarrow> (0, 0, 0, 0)
      | p # ps \<Rightarrow>
          (let x0 = fold min (map fst ps) (fst p); x1 = fold max (map fst ps) (fst p);
               y0 = fold min (map snd ps) (snd p); y1 = fold max (map snd ps) (snd p)
           in (x0, y0, x1 - x0 + 1, y1 - y0 + 1)))"

section \<open>Arrays on a heap, standard output\<close>

text \<open>
  A NumPy array is a mutable object: the module receives a reference to the caller's
  array. The heap is the list of the arrays allocated so far, a reference is an index
  into it. The state also holds the lines printed.
\<close>

type_synonym ref = nat

record state =
  heap :: "image list"
  stdout :: "string list"

type_synonym 'a py = "state \<Rightarrow> (error + 'a) \<times> state"

definition py_return :: "'a \<Rightarrow> 'a py" where
  "py_return v s = (Inr v, s)"

definition py_raise :: "error \<Rightarrow> 'a py" where
  "py_raise e s = (Inl e, s)"

definition py_bind :: "'a py \<Rightarrow> ('a \<Rightarrow> 'b py) \<Rightarrow> 'b py" where
  "py_bind m f s = (case m s of (Inl e, s') \<Rightarrow> (Inl e, s') | (Inr v, s') \<Rightarrow> f v s')"

definition py_lift :: "error + 'a \<Rightarrow> 'a py" where
  "py_lift r s = (r, s)"

definition print :: "string \<Rightarrow> unit py" where
  "print line s = (Inr (), s\<lparr>stdout := stdout s @ [line]\<rparr>)"

definition read_array :: "ref \<Rightarrow> image py" where
  "read_array r s = (Inr (heap s ! r), s)"

text \<open>Allocation of a fresh array: \<^verbatim>\<open>image.copy()\<close> and the result of \<^verbatim>\<open>imutils.rotate\<close>.\<close>

definition alloc :: "image \<Rightarrow> ref py" where
  "alloc img s = (Inr (length (heap s)), s\<lparr>heap := heap s @ [img]\<rparr>)"

definition copy :: "ref \<Rightarrow> ref py" where
  "copy r = py_bind (read_array r) alloc"

definition imutils_rotate :: "library \<Rightarrow> ref \<Rightarrow> int \<Rightarrow> ref py" where
  "imutils_rotate lib r angle = py_bind (read_array r) (\<lambda>img. alloc (rotate lib img angle))"

text \<open>\<^verbatim>\<open>cv.fillConvexPoly(image, box, color)\<close> writes \<open>color\<close> into the covered pixels, in place.\<close>

definition paint :: "(nat \<times> nat \<Rightarrow> bool) \<Rightarrow> pixel \<Rightarrow> image \<Rightarrow> image" where
  "paint covered color img =
     map (\<lambda>(r, row). map (\<lambda>(c, p). if covered (r, c) then color else p)
                          (zip [0 ..< length row] row))
         (zip [0 ..< length img] img)"

definition fillConvexPoly :: "library \<Rightarrow> ref \<Rightarrow> point list \<Rightarrow> pixel \<Rightarrow> unit py" where
  "fillConvexPoly lib r box color s =
     (Inr (), s\<lparr>heap := (heap s)[r := paint (poly_covers lib box) color (heap s ! r)]\<rparr>)"

section \<open>The module\<close>

text \<open>
  The argument \<^verbatim>\<open>image\<close> of the source is the reference \<open>im\<close>.
  \<^verbatim>\<open>get_contour\<close> (lines 203-215); \<open>mode\<close> and \<open>method\<close> are the constants every caller
  passes, and are part of the parameter \<open>findContours\<close>. \<^verbatim>\<open>contours[0]\<close> on an empty
  tuple raises \<^verbatim>\<open>IndexError\<close>.
\<close>

definition get_contour :: "library \<Rightarrow> ref \<Rightarrow> contour py" where
  "get_contour lib im =
     py_bind (read_array im) (\<lambda>img.
       let contours = findContours lib img in
       py_bind (if 1 < length contours then print ''Found more than one blob.''
                else py_return ()) (\<lambda>_.
         case contours of [] \<Rightarrow> py_raise IndexError | cnt # _ \<Rightarrow> py_return cnt))"

text \<open>
  \<^verbatim>\<open>get_sides_based_on_moments\<close> (lines 186-200). The divisions are guarded by
  \<^verbatim>\<open>M["m00"] != 0\<close>; each \<^verbatim>\<open>math.sqrt\<close> may raise. \<open>a\<close> is computed before \<open>b\<close>.
\<close>

definition get_sides_based_on_moments :: "cv_moment_dict \<Rightarrow> error + (real \<times> real)" where
  "get_sides_based_on_moments M =
     (if m00 M \<noteq> 0 then
        res_bind (py_sqrt ((mu20 M - mu02 M) ^ 2 + 4 * mu11 M ^ 2)) (\<lambda>d.
        res_bind (py_sqrt ((6 * (mu20 M + mu02 M + d)) / m00 M)) (\<lambda>a.
        res_bind (py_sqrt ((mu20 M - mu02 M) ^ 2 + 4 * mu11 M ^ 2)) (\<lambda>d'.
        res_bind (py_sqrt ((6 * (mu20 M + mu02 M - d')) / m00 M)) (\<lambda>b.
        Inr (a, b)))))
      else Inr (0, 0))"

text \<open>
  \<^verbatim>\<open>get_mbr_areas\<close> (lines 100-121). \<^verbatim>\<open>image = image.copy()\<close> rebinds the local name
  to a fresh array; \<^verbatim>\<open>cv.fillConvexPoly\<close> then writes into that array.
\<close>

definition get_mbr_areas :: "library \<Rightarrow> ref \<Rightarrow> (nat \<times> nat) py" where
  "get_mbr_areas lib im =
     py_bind (get_contour lib im) (\<lambda>cnt.
       let rect = minAreaRect lib cnt;
           box = map (\<lambda>(px, py). (int0 px, int0 py)) (boxPoints lib rect) in
       py_bind (read_array im) (\<lambda>img.
         let region_area = np_sum img in
         py_bind (copy im) (\<lambda>im'.
         py_bind (fillConvexPoly lib im' box 1) (\<lambda>_.
         py_bind (read_array im') (\<lambda>img'.
           let mbr_area = np_sum img' in
           py_return (region_area, mbr_area))))))"

text \<open>
  Lines 137-138 and 141 (the same as lines 168-169 and 172): the clipped region
  \<^verbatim>\<open>A2 = np.sum(image[x:w, y:h])\<close> with \<^verbatim>\<open>x, y, w, h = cv.boundingRect(cnt)\<close>.
\<close>

definition clipped_region :: "image \<Rightarrow> contour \<Rightarrow> nat" where
  "clipped_region img cnt =
     (case boundingRect cnt of (x, y, w, h) \<Rightarrow>
        let box_image = np_slice2 img x w y h in np_sum box_image)"

text \<open>\<^verbatim>\<open>get_rectangular_discrepancy_descriptor\<close> (lines 124-156).\<close>

definition get_rectangular_discrepancy_descriptor :: "library \<Rightarrow> ref \<Rightarrow> fl py" where
  "get_rectangular_discrepancy_descriptor lib im =
     py_bind (get_contour lib im) (\<lambda>cnt.
     py_bind (py_lift (get_sides_based_on_moments (cv_moments lib cnt))) (\<lambda>(a, b).
     py_bind (read_array im) (\<lambda>img.
       let A1 = np_sum img;
           A2 = clipped_region img cnt;
           A3 = a * b;
           R = A3 - real A2;
           D = u64_sub A1 A2;
           B = A3 in
       if B = 0 then py_return (Fin 0)
       else
         let R_D = fl_abs (fl_sub (Fin 1) (np_div (Fin (R + real D)) (Fin B))) in
         if fl_gt R_D (Fin 1) then py_return (Fin 1)
         else py_return R_D)))"

text \<open>\<^verbatim>\<open>get_robust_mbr_discrepancy\<close> (lines 159-183).\<close>

definition get_robust_mbr_discrepancy :: "library \<Rightarrow> ref \<Rightarrow> fl py" where
  "get_robust_mbr_discrepancy lib im =
     py_bind (get_contour lib im) (\<lambda>cnt.
     py_bind (get_mbr_areas lib im) (\<lambda>(region_area, mbr_area).
     py_bind (py_lift (get_sides_based_on_moments (cv_moments lib cnt))) (\<lambda>(a, b).
     py_bind (read_array im) (\<lambda>img.
       let A1 = region_area;
           A2 = clipped_region img cnt;
           A3 = a * b;
           R = A3 - real A2;
           D = u64_sub A1 A2;
           I = mbr_area;
           R_R = fl_abs (fl_sub (Fin 1) (np_div (Fin (R + real D)) (Fin (real I)))) in
       if fl_gt R_R (Fin 1) then py_return (Fin 1)
       else py_return R_R))))"

text \<open>
  The two candidate roots of lines 70-71, as functions of the perimeter \<open>P\<close> and the area
  \<open>A\<close>. The argument of \<^verbatim>\<open>math.sqrt\<close> is an absolute value, so it does not raise.
\<close>

definition a2_1 :: "real \<Rightarrow> real \<Rightarrow> real" where
  "a2_1 P A = (P + sqrt \<bar>P ^ 2 - 16 * A\<bar>) / 4"

definition a2_2 :: "real \<Rightarrow> real \<Rightarrow> real" where
  "a2_2 P A = (P - sqrt \<bar>P ^ 2 - 16 * A\<bar>) / 4"

text \<open>
  The Agreement branch of \<^verbatim>\<open>rectangularity\<close> (lines 58-82). \<open>a1\<close>, \<open>a2\<close> and \<open>P\<close> are Python
  floats, so \<^verbatim>\<open>abs(a1 - a2) / (a1 + a2)\<close> raises at a zero divisor; \<open>A\<close> is a NumPy
  scalar, so \<open>b2\<close> and all that is computed from it follow NumPy.
\<close>

definition agreement_method :: "library \<Rightarrow> ref \<Rightarrow> fl option py" where
  "agreement_method lib im =
     py_bind (get_contour lib im) (\<lambda>cnt.
     py_bind (py_lift (get_sides_based_on_moments (cv_moments lib cnt))) (\<lambda>(a1, b1).
     py_bind (read_array im) (\<lambda>img.
       let A = real (np_sum img);
           P = arcLength lib cnt in
       if a2_1 P A < 0 \<or> a2_2 P A < 0 then py_return (Some (Fin 0))
       else
         let a2 = (if a2_1 P A > a2_2 P A then a2_1 P A else a2_2 P A);
             b2 = np_div (Fin A) (Fin a2) in
         py_bind (py_lift (py_div \<bar>a1 - a2\<bar> (a1 + a2))) (\<lambda>t1.
           let t2 = np_div (fl_abs (fl_sub (Fin b1) b2)) (fl_add (Fin b1) b2);
               R = fl_add (Fin t1) t2;
               R_A = fl_sub (Fin 1) (np_div R (Fin 2)) in
           py_return (Some R_A)))))"

text \<open>
  The Moments branch (lines 85-94), in double precision: the product \<^verbatim>\<open>144 * m['mu22']\<close>,
  the power \<^verbatim>\<open>m['m00'] ** 3\<close>, their quotient \<open>R_M\<close> and the reciprocal \<^verbatim>\<open>1 / R_M\<close> are each
  rounded. Whether a zero divisor or an overflowing power raises is decided by the kind
  of float that the helper returns.
\<close>

definition moments_method :: "library \<Rightarrow> ref \<Rightarrow> fl option py" where
  "moments_method lib im =
     py_bind (read_array im) (\<lambda>img.
       let m = moments lib img;
           k = helper_numbers lib;
           p = ieee_mul (Fin 144) (ms_mu22 m) in
       py_bind (py_lift (float_pow3 k (ms_m00 m))) (\<lambda>c.
       py_bind (py_lift (float_div k p c)) (\<lambda>R_M.
         if fl_le R_M (Fin 1) then py_return (Some R_M)
         else py_bind (py_lift (float_div k (Fin 1) R_M)) (\<lambda>q. py_return (Some q)))))"

text \<open>
  \<^verbatim>\<open>rectangularity\<close> (lines 9-97). The result \<open>None\<close> is Python's \<^verbatim>\<open>None\<close>, what a function
  returns when it ends without a \<^verbatim>\<open>return\<close>. A caller that gives no method passes the
  default, \<open>mbr\<close>. The integers 0 and 1 that some branches return are the numbers
  \<open>Fin 0\<close> and \<open>Fin 1\<close>.
\<close>

definition rectangularity :: "library \<Rightarrow> ref \<Rightarrow> string \<Rightarrow> fl option py" where
  "rectangularity lib im method =
     (if method = ''r_b'' \<or> method = ''Minimum Bounding Rectangle (MBR)'' \<or> method = ''mbr'' then
        py_bind (get_mbr_areas lib im) (\<lambda>(region_area, mbr_area).
          let R_B = np_div (Fin (real region_area)) (Fin (real mbr_area)) in
          py_return (Some R_B))
      else if method = ''r_d'' \<or> method = ''Rectangular Discrepancy'' then
        py_bind (imutils_rotate lib im 45) (\<lambda>rotated_image.
        py_bind (get_rectangular_discrepancy_descriptor lib im) (\<lambda>straight_image_descriptor.
        py_bind (get_rectangular_discrepancy_descriptor lib rotated_image) (\<lambda>rotated_image_descriptor.
          if fl_gt straight_image_descriptor rotated_image_descriptor
          then py_return (Some straight_image_descriptor)
          else py_return (Some rotated_image_descriptor))))
      else if method = ''r_r'' \<or> method = ''Robust MBR'' then
        py_bind (imutils_rotate lib im 45) (\<lambda>rotated_image.
        py_bind (get_robust_mbr_discrepancy lib im) (\<lambda>straight_image_descriptor.
        py_bind (get_robust_mbr_discrepancy lib rotated_image) (\<lambda>rotated_image_descriptor.
          if fl_gt straight_image_descriptor rotated_image_descriptor
          then py_return (Some straight_image_descriptor)
          else py_return (Some rotated_image_descriptor))))
      else if method = ''r_a'' \<or> method = ''Agreement method'' then
        agreement_method lib im
      else if method = ''r_m'' \<or> method = ''Moments method'' then
        moments_method lib im
      else
        py_bind (print ''Wrong method.'') (\<lambda>_. py_return None))"

section \<open>Method names and sample inputs\<close>

text \<open>The identifiers that the chain of comparisons in \<^verbatim>\<open>rectangularity\<close> recognises.\<close>

definition contour_method_names :: "string list" where
  "contour_method_names =
     [''r_b'', ''Minimum Bounding Rectangle (MBR)'', ''mbr'',
      ''r_d'', ''Rectangular Discrepancy'',
      ''r_r'', ''Robust MBR'',
      ''r_a'', ''Agreement method'']"

definition method_names :: "string list" where
  "method_names = contour_method_names @ [''r_m'', ''Moments method'']"

text \<open>
  A 20 x 20 mask whose only foreground pixel is \<open>(1, 1)\<close>, next to the corner, and the
  empty mask of that size. \<^verbatim>\<open>imutils.rotate\<close> turns the image about \<open>(10, 10)\<close> and keeps
  the frame: the pixel, at distance \<open>9 * sqrt 2\<close> from the centre, lands more than two
  pixels outside the frame, so the rotated mask is empty.
\<close>

definition corner_mask :: image where
  "corner_mask =
     replicate 20 0 # (0 # 1 # replicate 18 0) # replicate 18 (replicate 20 0)"

definition blank_mask :: image where
  "blank_mask = replicate 20 (replicate 20 0)"

text \<open>
  A 3 x 3 mask whose only foreground pixel is the centre \<open>(1, 1)\<close>, about which
  \<^verbatim>\<open>imutils.rotate\<close> turns it: the rotated mask is the same mask.
\<close>

definition centre_mask :: image where
  "centre_mask = [[0, 0, 0], [0, 1, 0], [0, 0, 0]]"

text \<open>
  A 7 x 7 mask with a 5 x 5 square of foreground at rows and columns 1-5. Its contour
  joins the centres of the four corner pixels of the square, a square of side 4: arc
  length 16, contour moments \<open>m00 = 16\<close>, \<open>mu20 = mu02 = 4 ^ 4 / 12\<close> and \<open>mu11 = 0\<close>.
\<close>

definition square_mask :: image where
  "square_mask =
     replicate 7 0 # replicate 5 (0 # replicate 5 1 @ [0]) @ [replicate 7 0]"

definition square_contour :: contour where
  "square_contour = [(1, 1), (1, 5), (5, 5), (5, 1)]"

text \<open>
  A 3 x 3 mask whose foreground is its four corners: four pixels at distance 1 from the
  centroid \<open>(1, 1)\<close> along both axes, so \<open>m00 = 4\<close> and \<open>mu22 = 4\<close>.
\<close>

definition four_corners_mask :: image where
  "four_corners_mask = [[1, 0, 1], [0, 0, 0], [1, 0, 1]]"

text \<open>
  A 3 x 23 mask with twelve foreground pixels: columns 0, 6, 10, 12, 16 and 22 of rows 0
  and 2. The centroid is \<open>(11, 1)\<close>, so \<open>m00 = 12\<close> and
  \<open>mu22 = 2 * (121 + 25 + 1 + 1 + 25 + 121) = 588\<close>.
\<close>

definition sparse_row :: "pixel list" where
  "sparse_row = [1, 0, 0, 0, 0, 0, 1, 0, 0, 0, 1, 0, 1, 0, 0, 0, 1, 0, 0, 0, 0, 0, 1]"

definition sparse_mask :: image where
  "sparse_mask = [sparse_row, replicate 23 0, sparse_row]"

text \<open>
  What the libraries return on these masks, as tables; an entry for an argument that no
  example passes is arbitrary. The contour of a single pixel is that one point, its
  contour moments and its arc length are zero, and its minimum-area rectangle is the
  point itself; an empty mask has no contour. The polygons that occur are points and
  upright rectangles, which cover the pixels between their corners. The moment set of
  a mask has \<open>m00\<close> equal to the pixel count, and \<open>mu22 = 0\<close> for a single pixel; its
  entries are taken as Python floats.
\<close>

definition sample_library :: library where
  "sample_library =
     \<lparr>findContours = (\<lambda>img. if img = corner_mask then [[(1, 1)]]
                            else if img = centre_mask then [[(1, 1)]]
                            else if img = square_mask then [square_contour]
                            else []),
      cv_moments = (\<lambda>cnt. if cnt = square_contour
                          then \<lparr>m00 = 16, mu20 = 64 / 3, mu02 = 64 / 3, mu11 = 0\<rparr>
                          else \<lparr>m00 = 0, mu20 = 0, mu02 = 0, mu11 = 0\<rparr>),
      arcLength = (\<lambda>cnt. if cnt = square_contour then 16 else 0),
      minAreaRect = (\<lambda>cnt. case boundingRect cnt of (x, y, w, h) \<Rightarrow>
                       ((real_of_int x + real_of_int (w - 1) / 2,
                         real_of_int y + real_of_int (h - 1) / 2),
                        (real_of_int (w - 1), real_of_int (h - 1)), 90)),
      boxPoints = (\<lambda>((cx, cy), (w, h), angle).
                     [(cx - w / 2, cy + h / 2), (cx - w / 2, cy - h / 2),
                      (cx + w / 2, cy - h / 2), (cx + w / 2, cy + h / 2)]),
      poly_covers = (\<lambda>box (r, c). case boundingRect box of (x, y, w, h) \<Rightarrow>
                       x \<le> int c \<and> int c < x + w \<and> y \<le> int r \<and> int r < y + h),
      rotate = (\<lambda>img angle. if img = centre_mask then centre_mask else blank_mask),
      moments = (\<lambda>img. if img = four_corners_mask then \<lparr>ms_m00 = Fin 4, ms_mu22 = Fin 4\<rparr>
                       else if img = sparse_mask then \<lparr>ms_m00 = Fin 12, ms_mu22 = Fin 588\<rparr>
                       else \<lparr>ms_m00 = Fin (real (np_sum img)), ms_mu22 = Fin 0\<rparr>),
      helper_numbers = PythonFloat\<rparr>"

text \<open>
  A 5 x 5 mask with a 2 x 2 block of foreground pixels at rows 2-3 and columns 2-3, and
  the contour of the block.
\<close>

definition block_mask :: image where
  "block_mask =
     [[0, 0, 0, 0, 0], [0, 0, 0, 0, 0], [0, 0, 1, 1, 0], [0, 0, 1, 1, 0], [0, 0, 0, 0, 0]]"

definition block_contour :: contour where
  "block_contour = [(2, 2), (2, 3), (3, 3), (3, 2)]"

text \<open>
  The sum of the pixels of the mask that lie within the bounding box of the contour:
  rows \<open>y\<close> to \<open>y + h - 1\<close> and columns \<open>x\<close> to \<open>x + w - 1\<close>. This is what the clipped
  region is said to be; \<open>clipped_region\<close> above is what lines 137-141 compute.
\<close>

definition bounding_box_sum :: "image \<Rightarrow> contour \<Rightarrow> nat" where
  "bounding_box_sum img cnt =
     (case boundingRect cnt of (x, y, w, h) \<Rightarrow> np_sum (np_slice2 img y (y + h) x (x + w)))"

text \<open>A mask whose pixels are all 0 or 1.\<close>

definition binary_mask :: "image \<Rightarrow> bool" where
  "binary_mask img = list_all (list_all (\<lambda>p. p = 0 \<or> p = 1)) img"

section \<open>The frame of a computation\<close>

text \<open>
  A computation keeps the frame when every array that exists before it runs is the same
  after it, whatever it returns or raises: the heap before is a prefix of the heap after.
\<close>

definition frame :: "'a py \<Rightarrow> bool" where
  "frame m \<longleftrightarrow> (\<forall>s r s'. m s = (r, s') \<longrightarrow> prefix (heap s) (heap s'))"

section \<open>The sides estimated from the moments\<close>






section \<open>Evaluation of the state monad\<close>

lemmas py_defs = py_bind_def py_return_def py_raise_def py_lift_def print_def
  read_array_def alloc_def copy_def imutils_rotate_def fillConvexPoly_def

lemma sample_masks_differ:
  "blank_mask \<noteq> corner_mask" "blank_mask \<noteq> centre_mask" "corner_mask \<noteq> centre_mask"
  "blank_mask \<noteq> square_mask" "corner_mask \<noteq> square_mask" "centre_mask \<noteq> square_mask"
  "blank_mask \<noteq> four_corners_mask" "centre_mask \<noteq> four_corners_mask"
  "blank_mask \<noteq> sparse_mask" "four_corners_mask \<noteq> sparse_mask"
  by (simp_all add: blank_mask_def corner_mask_def centre_mask_def square_mask_def
      four_corners_mask_def sparse_mask_def eval_nat_numeral)

lemma sample_contours_differ:
  "[(1, 1)] \<noteq> square_contour"
  by (simp_all add: square_contour_def)

lemma np_sum_corner_mask: "np_sum corner_mask = 1"
  by (simp add: np_sum_def corner_mask_def sum_list_replicate)

section \<open>The input array is not written\<close>

lemma frameI: "(\<And>s r s'. m s = (r, s') \<Longrightarrow> prefix (heap s) (heap s')) \<Longrightarrow> frame m"
  by (simp add: frame_def)

lemma frameD: "frame m \<Longrightarrow> m s = (r, s') \<Longrightarrow> prefix (heap s) (heap s')"
  by (simp add: frame_def)

lemma frame_bind:
  assumes "frame m" and "\<And>v. frame (f v)"
  shows "frame (py_bind m f)"
proof (rule frameI)
  fix s r s'
  assume run: "py_bind m f s = (r, s')"
  obtain r1 s1 where m: "m s = (r1, s1)" by (cases "m s")
  have p1: "prefix (heap s) (heap s1)" using assms(1) m by (rule frameD)
  show "prefix (heap s) (heap s')"
  proof (cases r1)
    case (Inl e)
    with run m have "s' = s1" by (simp add: py_bind_def)
    with p1 show ?thesis by simp
  next
    case (Inr v)
    with run m have "f v s1 = (r, s')" by (simp add: py_bind_def)
    with assms(2) have "prefix (heap s1) (heap s')" by (rule frameD)
    with p1 show ?thesis by (rule prefix_order.trans)
  qed
qed

lemma frame_return: "frame (py_return v)"
  by (rule frameI) (auto simp: py_return_def)

lemma frame_raise: "frame (py_raise e)"
  by (rule frameI) (auto simp: py_raise_def)

lemma frame_lift: "frame (py_lift r)"
  by (rule frameI) (auto simp: py_lift_def)

lemma frame_print: "frame (print l)"
  by (rule frameI) (auto simp: print_def)

lemma frame_read: "frame (read_array r)"
  by (rule frameI) (auto simp: read_array_def)

lemma frame_alloc: "frame (alloc img)"
  by (rule frameI) (auto simp: alloc_def)

lemma frame_copy: "frame (copy r)"
  unfolding copy_def by (intro frame_bind frame_read frame_alloc)

lemma frame_rotate: "frame (imutils_rotate lib r angle)"
  unfolding imutils_rotate_def by (intro frame_bind frame_read frame_alloc)

lemma frame_if: "frame a \<Longrightarrow> frame b \<Longrightarrow> frame (if c then a else b)"
  by simp

lemma frame_case_prod: "(\<And>a b. frame (f a b)) \<Longrightarrow> frame (case p of (a, b) \<Rightarrow> f a b)"
  by (cases p) simp

lemma frame_case_list: "frame a \<Longrightarrow> (\<And>x xs. frame (f x xs)) \<Longrightarrow> frame (case l of [] \<Rightarrow> a | x # xs \<Rightarrow> f x xs)"
  by (cases l) simp_all

lemma frame_get_contour: "frame (get_contour lib im)"
  unfolding get_contour_def Let_def
  by (intro frame_bind frame_read frame_if frame_print frame_return frame_case_list frame_raise)

text \<open>The one write of the module goes into the copy made just before it.\<close>

lemma frame_copy_fill:
  assumes "\<And>r v. frame (g r v)"
  shows "frame (py_bind (copy im) (\<lambda>im'. py_bind (fillConvexPoly lib im' box c) (g im')))"
proof (rule frameI)
  fix s r s'
  assume run: "py_bind (copy im) (\<lambda>im'. py_bind (fillConvexPoly lib im' box c) (g im')) s = (r, s')"
  define s2 where "s2 = s\<lparr>heap := heap s @ [paint (poly_covers lib box) c (heap s ! im)]\<rparr>"
  from run have "g (length (heap s)) () s2 = (r, s')"
    by (simp add: py_defs s2_def)
  with assms have "prefix (heap s2) (heap s')" by (rule frameD)
  moreover have "prefix (heap s) (heap s2)" by (simp add: s2_def)
  ultimately show "prefix (heap s) (heap s')" by (metis prefix_order.trans)
qed

lemma frame_get_mbr_areas: "frame (get_mbr_areas lib im)"
  unfolding get_mbr_areas_def Let_def
  apply (rule frame_bind, rule frame_get_contour)
  apply (rule frame_bind, rule frame_read)
  apply (rule frame_copy_fill)
  apply (intro frame_bind frame_read frame_return)
  done

lemma frame_rdd: "frame (get_rectangular_discrepancy_descriptor lib im)"
  unfolding get_rectangular_discrepancy_descriptor_def Let_def
  by (intro frame_bind frame_get_contour frame_read frame_lift frame_case_prod frame_if frame_return)

lemma frame_robust: "frame (get_robust_mbr_discrepancy lib im)"
  unfolding get_robust_mbr_discrepancy_def Let_def
  by (intro frame_bind frame_get_contour frame_get_mbr_areas frame_read frame_lift frame_case_prod frame_if frame_return)

lemma frame_agreement: "frame (agreement_method lib im)"
  unfolding agreement_method_def Let_def
  by (intro frame_bind frame_get_contour frame_read frame_lift frame_case_prod frame_if frame_return)

lemma frame_moments: "frame (moments_method lib im)"
  unfolding moments_method_def Let_def
  by (intro frame_bind frame_read frame_lift frame_if frame_return)

lemma frame_rectangularity: "frame (rectangularity lib im method)"
  unfolding rectangularity_def Let_def
  by (intro frame_if frame_bind frame_case_prod frame_return frame_print frame_rotate
      frame_get_mbr_areas frame_rdd frame_robust frame_agreement frame_moments)

lemma get_mbr_areas_paints_fresh_copy:
  assumes "findContours lib (heap s ! im) = cnt # rest"
  shows "heap (snd (get_mbr_areas lib im s)) =
         heap s @ [paint (poly_covers lib (map (\<lambda>(px, py). (int0 px, int0 py))
                     (boxPoints lib (minAreaRect lib cnt)))) 1 (heap s ! im)]"
  using assms by (simp add: get_mbr_areas_def get_contour_def py_defs Let_def)

text \<open>
  C9. Whatever the method and the library, the array passed to \<open>rectangularity\<close> holds
  the same pixels after the call, and so does every other array that existed before it:
  \<^verbatim>\<open>cv.fillConvexPoly\<close> writes into the copy that \<open>get_mbr_areas\<close> has just allocated
  (\<open>get_mbr_areas_paints_fresh_copy\<close>).
\<close>

theorem input_mask_unchanged:
  assumes "im < length (heap s)"
  shows "heap (snd (rectangularity lib im method s)) ! im = heap s ! im \<and>
         prefix (heap s) (heap (snd (rectangularity lib im method s)))"
proof -
  have p: "prefix (heap s) (heap (snd (rectangularity lib im method s)))"
    using frame_rectangularity [of lib im "method"]
    by (metis frameD prod.collapse)
  then obtain zs where "heap (snd (rectangularity lib im method s)) = heap s @ zs"
    by (auto simp: prefix_def)
  with assms p show ?thesis by (simp add: nth_append)
qed

theorem input_mask_unchanged_witness:
  "(0::nat) < length (heap \<lparr>heap = [centre_mask], stdout = []\<rparr>) \<and>
   heap (snd (rectangularity sample_library 0 ''mbr'' \<lparr>heap = [centre_mask], stdout = []\<rparr>)) ! 0
     = centre_mask \<and>
   heap (snd (rectangularity sample_library 0 ''mbr'' \<lparr>heap = [centre_mask], stdout = []\<rparr>))
     = [centre_mask, centre_mask]"
proof -
  have run: "heap (snd (rectangularity sample_library 0 ''mbr'' \<lparr>heap = [centre_mask], stdout = []\<rparr>))
     = [centre_mask, centre_mask]"
  proof -
    have paint: "paint (\<lambda>(r, c). Suc 0 \<le> c \<and> c < 2 \<and> Suc 0 \<le> r \<and> r < 2) 1 centre_mask
        = centre_mask"
      by (simp add: paint_def centre_mask_def upt_rec [of 0] upt_rec [of 1] upt_rec [of 2])
    show ?thesis
      by (simp add: rectangularity_def get_mbr_areas_def get_contour_def sample_library_def py_defs
          sample_masks_differ sample_masks_differ [symmetric] Let_def boundingRect_def
          int0_def paint)
  qed
  show ?thesis
    using input_mask_unchanged [of 0 "\<lparr>heap = [centre_mask], stdout = []\<rparr>" sample_library "''mbr''"] run
    by simp
qed

section \<open>Method dispatch\<close>

text \<open>
  C3, as the code has it. For an identifier that is none of the recognised names,
  \<open>rectangularity\<close> raises nothing: it prints the line \<open>Wrong method.\<close> and returns
  \<open>None\<close>. Nothing else happens: no library function is consulted (the result is the same
  for every library) and the heap is as it was.
\<close>

theorem unknown_method_prints_and_returns_None:
  assumes "method \<notin> set method_names"
  shows "rectangularity lib im method s =
         (Inr None, s\<lparr>stdout := stdout s @ [''Wrong method.'']\<rparr>)"
  using assms
  by (simp add: rectangularity_def py_defs method_names_def contour_method_names_def)

theorem unknown_method_prints_and_returns_None_witness:
  "''MBR'' \<notin> set method_names \<and>
   rectangularity sample_library 0 ''MBR'' \<lparr>heap = [centre_mask], stdout = []\<rparr> =
     (Inr None, \<lparr>heap = [centre_mask], stdout = [''Wrong method.'']\<rparr>)"
proof -
  have h: "''MBR'' \<notin> set method_names"
    by (simp add: method_names_def contour_method_names_def)
  show ?thesis
    using h unknown_method_prints_and_returns_None
      [OF h, of sample_library 0 "\<lparr>heap = [centre_mask], stdout = []\<rparr>"]
    by simp
qed

text \<open>
  C3, as stated, fails: for the identifier \<open>square\<close> the call returns \<open>None\<close> to its caller
  and reports no error.
\<close>

theorem unknown_method_is_not_an_error:
  "fst (rectangularity sample_library 0 ''square'' \<lparr>heap = [centre_mask], stdout = []\<rparr>)
     = Inr None"
  by (simp add: rectangularity_def py_defs)

section \<open>The empty mask\<close>





section \<open>The clipped region\<close>

text \<open>
  C2. The clipped region is meant to be the part of the mask inside the bounding box of
  the contour, but \<^verbatim>\<open>image[x:w, y:h]\<close> takes the rows from \<open>x\<close> to \<open>w - 1\<close> and the columns
  from \<open>y\<close> to \<open>h - 1\<close>. For the 2 x 2 block at rows and columns 2-3 the bounding rectangle
  is \<open>(2, 2, 2, 2)\<close>, the slice is empty and \<open>A2\<close> is 0, while the bounding box holds the
  four pixels of the block.
\<close>

theorem clipped_region_misses_bounding_box:
  "boundingRect block_contour = (2, 2, 2, 2) \<and>
   clipped_region block_mask block_contour = 0 \<and>
   bounding_box_sum block_mask block_contour = 4"
  by (simp add: clipped_region_def bounding_box_sum_def boundingRect_def block_contour_def
      block_mask_def np_slice2_def py_slice_def np_sum_def)

section \<open>A single pixel away from the centre\<close>

text \<open>
  C1. The mask whose only foreground pixel is next to the corner is a valid, non-empty
  mask. The Rectangular Discrepancy method scores it (0, since the contour of one pixel
  has \<open>m00 = 0\<close>), then scores the rotated mask, which is empty: \<open>get_contour\<close> raises
  \<open>IndexError\<close> and no number is returned.
\<close>

theorem rectangular_discrepancy_raises_on_corner_pixel:
  "np_sum corner_mask = 1 \<and>
   fst (rectangularity sample_library 0 ''r_d'' \<lparr>heap = [corner_mask], stdout = []\<rparr>)
     = Inl IndexError"
  by (simp add: rectangularity_def get_rectangular_discrepancy_descriptor_def get_contour_def
      get_sides_based_on_moments_def sample_library_def py_defs sample_masks_differ
      sample_masks_differ [symmetric] sample_contours_differ Let_def nth_append
      np_sum_corner_mask)

text \<open>
  C5. A single pixel is a degenerate shape (zero contour area, zero perimeter). With the
  pixel next to the corner, the Robust MBR method raises \<open>IndexError\<close> on the rotated
  mask, in the same way.
\<close>

theorem robust_mbr_raises_on_single_pixel:
  "np_sum corner_mask = 1 \<and>
   fst (rectangularity sample_library 0 ''r_r'' \<lparr>heap = [corner_mask], stdout = []\<rparr>)
     = Inl IndexError"
  by (simp add: rectangularity_def get_robust_mbr_discrepancy_def get_contour_def
      get_mbr_areas_def get_sides_based_on_moments_def sample_library_def py_defs
      sample_masks_differ sample_masks_differ [symmetric] sample_contours_differ Let_def
      nth_append np_sum_corner_mask)

section \<open>Rounding to a double\<close>

lemma round_half_even_error: "\<bar>of_int (round_half_even y) - y\<bar> \<le> 1 / 2"
  unfolding round_half_even_def Let_def by (auto simp: abs_le_iff)

lemma round_half_even_of_int: "round_half_even (of_int n) = n"
  by (simp add: round_half_even_def)

lemma double_exponent_eq:
  assumes "2 powr of_int e \<le> \<bar>x\<bar>" and "\<bar>x\<bar> < 2 powr (of_int e + 1)" and "- 1022 \<le> e"
  shows "double_exponent x = e"
proof -
  have "0 < \<bar>x\<bar>" using assms(1) by (smt (verit) powr_gt_zero)
  then have "\<lfloor>log 2 \<bar>x\<bar>\<rfloor> = e"
    using assms(1,2) by (simp add: floor_log_eq_powr_iff)
  with assms(3) show ?thesis by (simp add: double_exponent_def)
qed

lemma round_double_normal:
  assumes "2 powr of_int e \<le> \<bar>x\<bar>" and "\<bar>x\<bar> < 2 powr (of_int e + 1)" and "- 1022 \<le> e"
    and "r = 2 powr (of_int e - 52) * of_int (round_half_even (x / 2 powr (of_int e - 52)))"
    and "\<bar>r\<bar> \<le> max_double"
  shows "round_double x = Fin r"
proof -
  have "x \<noteq> 0" using assms(1) by (smt (verit) powr_gt_zero)
  moreover have "\<not> max_double < r" "\<not> r < - max_double" using assms(5) by simp_all
  ultimately show ?thesis
    unfolding assms(4)
    by (simp add: round_double_def double_exponent_eq [OF assms(1,2,3)] Let_def)
qed

text \<open>An integer below \<open>2 ^ 53\<close> in absolute value is a double.\<close>

lemma round_double_of_int:
  assumes "\<bar>n\<bar> < 2 ^ 53"
  shows "round_double (of_int n) = Fin (of_int n)"
proof (cases "n = 0")
  case True
  then show ?thesis by (simp add: round_double_def)
next
  case False
  define x :: real where "x = of_int n"
  define e where "e = \<lfloor>log 2 \<bar>x\<bar>\<rfloor>"
  have x1: "1 \<le> \<bar>x\<bar>" using False by (simp add: x_def flip: of_int_abs)
  have x2: "\<bar>x\<bar> < 2 ^ 53" using assms by (simp add: x_def flip: of_int_abs)
  have lo: "2 powr of_int e \<le> \<bar>x\<bar>" and hi: "\<bar>x\<bar> < 2 powr (of_int e + 1)"
    using x1 floor_log_eq_powr_iff [of "\<bar>x\<bar>" 2 e] by (simp_all add: e_def)
  have e0: "0 \<le> e" using x1 by (simp add: e_def)
  have "log 2 \<bar>x\<bar> < 53"
    using x1 x2 by (simp add: log_less_iff)
  then have e52: "e \<le> 52" by (simp add: e_def floor_le_iff)
  define k where "k = nat (52 - e)"
  have u: "(2::real) powr (of_int e - 52) = 1 / 2 ^ k"
  proof -
    have "of_int e - 52 = - real k" using e52 by (simp add: k_def)
    then show ?thesis by (simp add: powr_minus_divide powr_realpow)
  qed
  have "x / 2 powr (of_int e - 52) = of_int (n * 2 ^ k)"
    by (simp add: u x_def)
  then have r: "x = 2 powr (of_int e - 52) * of_int (round_half_even (x / 2 powr (of_int e - 52)))"
    by (simp only: round_half_even_of_int) (simp add: u x_def)
  have "\<bar>x\<bar> \<le> max_double" using x2 by (simp add: max_double_def)
  from round_double_normal [OF lo hi _ r this] e0 show ?thesis by (simp add: x_def)
qed

text \<open>The relative error of a rounding into the normal range: half a unit in the last place.\<close>

lemma round_double_relative_error:
  assumes "2 powr (- 1022) \<le> x" and "x \<le> 1"
  shows "\<exists>r. round_double x = Fin r \<and> \<bar>r - x\<bar> \<le> x / 2 ^ 53"
proof -
  have pos: "0 < x" using assms(1) by (smt (verit) powr_gt_zero)
  define e where "e = \<lfloor>log 2 \<bar>x\<bar>\<rfloor>"
  have lo: "2 powr of_int e \<le> \<bar>x\<bar>" and hi: "\<bar>x\<bar> < 2 powr (of_int e + 1)"
    using pos floor_log_eq_powr_iff [of "\<bar>x\<bar>" 2 e] by (simp_all add: e_def)
  have "- 1022 \<le> log 2 x" using assms(1) pos by (simp add: le_log_iff)
  then have em: "- 1022 \<le> e" using pos by (simp add: e_def le_floor_iff)
  define u :: real where "u = 2 powr (of_int e - 52)"
  define r where "r = u * of_int (round_half_even (x / u))"
  have upos: "0 < u" by (simp add: u_def)
  have "r - x = u * (of_int (round_half_even (x / u)) - x / u)"
    using upos by (simp add: r_def right_diff_distrib)
  then have "\<bar>r - x\<bar> = u * \<bar>of_int (round_half_even (x / u)) - x / u\<bar>"
    using upos by (simp add: abs_mult)
  also have "\<dots> \<le> u * (1 / 2)"
    using upos round_half_even_error [of "x / u"] by (intro mult_left_mono) simp_all
  also have "u * (1 / 2) = 2 powr of_int e / 2 ^ 53"
    by (simp add: u_def powr_diff)
  also have "\<dots> \<le> x / 2 ^ 53"
    using lo pos by (simp add: divide_right_mono)
  finally have err: "\<bar>r - x\<bar> \<le> x / 2 ^ 53" .
  have "x / 2 ^ 53 \<le> 1" using assms(2) pos by (simp add: field_simps)
  with err have "\<bar>r - x\<bar> \<le> 1" by linarith
  with assms(2) pos have "\<bar>r\<bar> \<le> 2" by linarith
  then have "\<bar>r\<bar> \<le> max_double" by (simp add: max_double_def)
  from round_double_normal [OF lo hi em _ this] have "round_double x = Fin r"
    by (simp add: r_def u_def)
  with err show ?thesis by blast
qed


lemma round_double_numeral:
  assumes "(numeral n :: int) < 2 ^ 53"
  shows "round_double (numeral n) = Fin (numeral n)"
  using round_double_of_int [of "numeral n"] assms by simp

text \<open>The doubles nearest to \<open>1 / 49\<close> and to \<open>1 / 9\<close>, and the product that is not 1.\<close>

lemma round_double_1_49: "round_double (1 / 49) = Fin (5882252574524729 / 2 ^ 58)"
proof (rule round_double_normal [where e = "- 6"])
  show "2 powr real_of_int (- 6) \<le> \<bar>1 / 49 :: real\<bar>" by (simp add: powr_minus_divide)
  show "\<bar>1 / 49 :: real\<bar> < 2 powr (real_of_int (- 6) + 1)" by (simp add: powr_minus_divide)
  show "- 1022 \<le> (- 6 :: int)" by simp
  show "5882252574524729 / 2 ^ 58 =
      2 powr (real_of_int (- 6) - 52) *
      real_of_int (round_half_even (1 / 49 / 2 powr (real_of_int (- 6) - 52)))"
    by (simp add: powr_minus_divide round_half_even_def Let_def)
  show "\<bar>5882252574524729 / 2 ^ 58 :: real\<bar> \<le> max_double" by (simp add: max_double_def)
qed

lemma round_double_1_9: "round_double (1 / 9) = Fin (8006399337547548 / 2 ^ 56)"
proof (rule round_double_normal [where e = "- 4"])
  show "2 powr real_of_int (- 4) \<le> \<bar>1 / 9 :: real\<bar>" by (simp add: powr_minus_divide)
  show "\<bar>1 / 9 :: real\<bar> < 2 powr (real_of_int (- 4) + 1)" by (simp add: powr_minus_divide)
  show "- 1022 \<le> (- 4 :: int)" by simp
  show "8006399337547548 / 2 ^ 56 =
      2 powr (real_of_int (- 4) - 52) *
      real_of_int (round_half_even (1 / 9 / 2 powr (real_of_int (- 4) - 52)))"
    by (simp add: powr_minus_divide round_half_even_def Let_def)
  show "\<bar>8006399337547548 / 2 ^ 56 :: real\<bar> \<le> max_double" by (simp add: max_double_def)
qed

lemma round_double_49_times_reciprocal:
  "round_double (49 * (5882252574524729 / 2 ^ 58)) = Fin (1 - 1 / 2 ^ 53)"
proof (rule round_double_normal [where e = "- 1"])
  show "2 powr real_of_int (- 1) \<le> \<bar>49 * (5882252574524729 / 2 ^ 58) :: real\<bar>"
    by (simp add: powr_minus_divide)
  show "\<bar>49 * (5882252574524729 / 2 ^ 58) :: real\<bar> < 2 powr (real_of_int (- 1) + 1)"
    by simp
  show "- 1022 \<le> (- 1 :: int)" by simp
  show "1 - 1 / 2 ^ 53 =
      2 powr (real_of_int (- 1) - 52) *
      real_of_int (round_half_even (49 * (5882252574524729 / 2 ^ 58) / 2 powr (real_of_int (- 1) - 52)))"
    by (simp add: powr_minus_divide round_half_even_def Let_def)
  show "\<bar>1 - 1 / 2 ^ 53 :: real\<bar> \<le> max_double" by (simp add: max_double_def)
qed

section \<open>The Moments method\<close>

text \<open>
  C8, as the code has it. When the product \<open>144 * mu22\<close>, the power \<open>m00 ** 3\<close> (not zero) and
  their quotient \<open>R_M\<close> are finite doubles, the Moments method returns \<open>R_M\<close> itself when
  \<open>R_M \<le> 1\<close>, and otherwise the double nearest to \<open>1 / R_M\<close>. When \<open>R_M\<close> exceeds 1 (and the
  reciprocal is not subnormal), the product of \<open>R_M\<close> and the returned score is 1 up to
  rounding: it differs from 1 by at most \<open>1 / 2 ^ 53\<close>.
\<close>

theorem moments_method_returns_rounded_reciprocal:
  assumes "method = ''r_m'' \<or> method = ''Moments method''"
    and "m = moments lib (heap s ! im)"
    and "ieee_mul (Fin 144) (ms_mu22 m) = Fin p"
    and "float_pow3 (helper_numbers lib) (ms_m00 m) = Inr (Fin c)"
    and "c \<noteq> 0"
    and "ieee_div (Fin p) (Fin c) = Fin R_M"
  shows "if R_M \<le> 1
         then rectangularity lib im method s = (Inr (Some (Fin R_M)), s)
         else rectangularity lib im method s = (Inr (Some (round_double (1 / R_M))), s) \<and>
              (R_M \<le> 2 ^ 1022 \<longrightarrow>
                 (\<exists>score. round_double (1 / R_M) = Fin score \<and>
                    \<bar>R_M * score - 1\<bar> \<le> 1 / 2 ^ 53))"
proof -
  have br: "rectangularity lib im method = moments_method lib im"
    using assms(1) by (elim disjE) (simp_all add: rectangularity_def)
  have q: "float_div (helper_numbers lib) (Fin p) (Fin c) = Inr (Fin R_M)"
    using assms(5,6) by (simp add: float_div_def)
  show ?thesis
  proof (cases "R_M \<le> 1")
    case True
    then show ?thesis
      using q assms(2,3,4)
      by (simp add: br moments_method_def py_defs Let_def del: ieee_mul.simps ieee_div.simps)
  next
    case False
    then have nz: "R_M \<noteq> 0" by simp
    have rc: "float_div (helper_numbers lib) (Fin 1) (Fin R_M) = Inr (round_double (1 / R_M))"
      using nz by (simp add: float_div_def)
    have run: "rectangularity lib im method s = (Inr (Some (round_double (1 / R_M))), s)"
      using False q rc assms(2,3,4)
      by (simp add: br moments_method_def py_defs Let_def del: ieee_mul.simps ieee_div.simps)
    have bound: "\<exists>score. round_double (1 / R_M) = Fin score \<and> \<bar>R_M * score - 1\<bar> \<le> 1 / 2 ^ 53"
      if "R_M \<le> 2 ^ 1022"
    proof -
      have pos: "0 < R_M" using False by simp
      have "2 powr (- 1022) \<le> 1 / R_M"
        using that pos by (simp add: powr_minus_divide field_simps)
      moreover have "1 / R_M \<le> 1" using False by simp
      ultimately obtain r where r: "round_double (1 / R_M) = Fin r"
        and err: "\<bar>r - 1 / R_M\<bar> \<le> 1 / R_M / 2 ^ 53"
        using round_double_relative_error by blast
      have "R_M * r - 1 = R_M * (r - 1 / R_M)" using pos by (simp add: right_diff_distrib)
      then have "\<bar>R_M * r - 1\<bar> = R_M * \<bar>r - 1 / R_M\<bar>"
        using pos by (simp add: abs_mult)
      also have "\<dots> \<le> R_M * (1 / R_M / 2 ^ 53)"
        using pos err by (intro mult_left_mono) simp_all
      also have "\<dots> = 1 / 2 ^ 53" using pos by simp
      finally show ?thesis using r by blast
    qed
    from False run bound show ?thesis by simp
  qed
qed

theorem moments_method_returns_rounded_reciprocal_witness:
  "ieee_mul (Fin 144) (ms_mu22 (moments sample_library four_corners_mask)) = Fin 576 \<and>
   float_pow3 (helper_numbers sample_library) (ms_m00 (moments sample_library four_corners_mask))
     = Inr (Fin 64) \<and>
   ieee_div (Fin 576) (Fin 64) = Fin 9 \<and>
   rectangularity sample_library 0 ''r_m'' \<lparr>heap = [four_corners_mask], stdout = []\<rparr>
     = (Inr (Some (Fin (8006399337547548 / 2 ^ 56))),
        \<lparr>heap = [four_corners_mask], stdout = []\<rparr>) \<and>
   \<bar>9 * (8006399337547548 / 2 ^ 56) - 1 :: real\<bar> \<le> 1 / 2 ^ 53"
proof -
  let ?s = "\<lparr>heap = [four_corners_mask], stdout = []\<rparr>"
  let ?m = "moments sample_library (heap ?s ! 0)"
  have h1: "''r_m'' = ''r_m'' \<or> ''r_m'' = ''Moments method''" by simp
  have h3: "ieee_mul (Fin 144) (ms_mu22 ?m) = Fin 576"
    by (simp add: sample_library_def round_double_numeral)
  have h4: "float_pow3 (helper_numbers sample_library) (ms_m00 ?m) = Inr (Fin 64)"
    by (simp add: sample_library_def float_pow3_def round_double_numeral)
  have h5: "(64::real) \<noteq> 0" by simp
  have h6: "ieee_div (Fin 576) (Fin 64) = Fin 9"
    by (simp add: round_double_numeral)
  have "rectangularity sample_library 0 ''r_m'' ?s = (Inr (Some (round_double (1 / 9))), ?s) \<and>
        (\<exists>score. round_double (1 / 9) = Fin score \<and> \<bar>9 * score - 1\<bar> \<le> 1 / 2 ^ 53)"
    using moments_method_returns_rounded_reciprocal [OF h1 refl h3 h4 h5 h6] by simp
  then have "rectangularity sample_library 0 ''r_m'' ?s
        = (Inr (Some (Fin (8006399337547548 / 2 ^ 56))), ?s)"
    and "\<bar>9 * (8006399337547548 / 2 ^ 56) - 1 :: real\<bar> \<le> 1 / 2 ^ 53"
    by (simp_all add: round_double_1_9)
  then show ?thesis using h3 h4 h6 by simp
qed

text \<open>
  C8, as stated, fails: the product is not always exactly 1. For the mask with twelve
  pixels the raw value is 49 and the score is the double nearest to \<open>1 / 49\<close>; their
  product is below 1, and the double that the multiplication gives is \<open>1 - 1 / 2 ^ 53\<close>.
\<close>

theorem moments_method_product_is_not_one:
  "ieee_mul (Fin 144) (Fin 588) = Fin 84672 \<and>
   float_pow3 PythonFloat (Fin 12) = Inr (Fin 1728) \<and>
   ieee_div (Fin 84672) (Fin 1728) = Fin 49 \<and>
   rectangularity sample_library 0 ''r_m'' \<lparr>heap = [sparse_mask], stdout = []\<rparr>
     = (Inr (Some (Fin (5882252574524729 / 2 ^ 58))), \<lparr>heap = [sparse_mask], stdout = []\<rparr>) \<and>
   (49 :: real) * (5882252574524729 / 2 ^ 58) \<noteq> 1 \<and>
   ieee_mul (Fin 49) (Fin (5882252574524729 / 2 ^ 58)) = Fin (1 - 1 / 2 ^ 53) \<and>
   (1 - 1 / 2 ^ 53 :: real) \<noteq> 1"
proof -
  have a: "ieee_mul (Fin 144) (Fin 588) = Fin 84672" by (simp add: round_double_numeral)
  have b: "float_pow3 PythonFloat (Fin 12) = Inr (Fin 1728)"
    by (simp add: float_pow3_def round_double_numeral)
  have c: "ieee_div (Fin 84672) (Fin 1728) = Fin 49" by (simp add: round_double_numeral)
  have d: "float_div PythonFloat (Fin 1) (Fin 49) = Inr (Fin (5882252574524729 / 2 ^ 58))"
    by (simp add: float_div_def round_double_1_49)
  have run: "rectangularity sample_library 0 ''r_m'' \<lparr>heap = [sparse_mask], stdout = []\<rparr>
     = (Inr (Some (Fin (5882252574524729 / 2 ^ 58))), \<lparr>heap = [sparse_mask], stdout = []\<rparr>)"
    using a b c d
    by (simp add: rectangularity_def moments_method_def sample_library_def py_defs Let_def
        sample_masks_differ sample_masks_differ [symmetric] float_div_def
        del: ieee_mul.simps ieee_div.simps)
  have e: "ieee_mul (Fin 49) (Fin (5882252574524729 / 2 ^ 58)) = Fin (1 - 1 / 2 ^ 53)"
    by (simp only: ieee_mul.simps round_double_49_times_reciprocal)
  show ?thesis using a b c run e by simp
qed

section \<open>The Agreement method\<close>

lemma get_sides_nonneg:
  assumes "get_sides_based_on_moments M = Inr (a, b)"
  shows "0 \<le> a \<and> 0 \<le> b"
proof (cases "m00 M = 0")
  case True
  with assms show ?thesis by (simp add: get_sides_based_on_moments_def)
next
  case False
  with assms show ?thesis
    by (auto simp: get_sides_based_on_moments_def res_bind_def py_sqrt_def
        split: sum.splits if_splits)
qed

lemma py_bind_Inr: "m s = (Inr v, s') \<Longrightarrow> py_bind m f s = f v s'"
  by (simp add: py_bind_def)

lemma py_bind_lift_Inr: "r = Inr v \<Longrightarrow> py_bind (py_lift r) f s = f v s"
  by (simp add: py_bind_def py_lift_def)

lemma py_bind_read: "py_bind (read_array r) f s = f (heap s ! r) s"
  by (simp add: py_bind_def read_array_def)

lemma roots_ordered: "a2_2 P A \<le> a2_1 P A"
  by (simp add: a2_1_def a2_2_def)

lemma larger_root_positive:
  assumes "\<not> (a2_1 P A < 0 \<or> a2_2 P A < 0)" and "0 < A"
  shows "0 < a2_1 P A"
proof (rule ccontr)
  assume "\<not> 0 < a2_1 P A"
  with assms(1) have z: "a2_1 P A = 0" by simp
  define r where "r = sqrt \<bar>P ^ 2 - 16 * A\<bar>"
  have r0: "0 \<le> r" by (simp add: r_def)
  from z have "P + r = 0" by (simp add: a2_1_def r_def)
  moreover from assms(1) have "0 \<le> P - r" by (simp add: a2_2_def r_def)
  ultimately have "P = 0" "r = 0" using r0 by simp_all
  then have "A = 0" by (simp add: r_def)
  with assms(2) show False by simp
qed

text \<open>The branch, once the contour and the sides from the moments are there.\<close>

lemma agreement_method_run:
  assumes "findContours lib (heap s ! im) = cnt # rest"
    and "get_sides_based_on_moments (cv_moments lib cnt) = Inr (a1, b1)"
    and "A = real (np_sum (heap s ! im))"
    and "P = arcLength lib cnt"
    and "a2 = (if a2_1 P A > a2_2 P A then a2_1 P A else a2_2 P A)"
    and "b2 = np_div (Fin A) (Fin a2)"
  shows "fst (agreement_method lib im s) =
      (if a2_1 P A < 0 \<or> a2_2 P A < 0 then Inr (Some (Fin 0))
       else case py_div \<bar>a1 - a2\<bar> (a1 + a2) of
              Inl e \<Rightarrow> Inl e
            | Inr t1 \<Rightarrow> Inr (Some (fl_sub (Fin 1) (np_div (fl_add (Fin t1)
                 (np_div (fl_abs (fl_sub (Fin b1) b2)) (fl_add (Fin b1) b2))) (Fin 2)))))"
proof -
  define s' where
    "s' = (if rest = [] then s else s\<lparr>stdout := stdout s @ [''Found more than one blob.'']\<rparr>)"
  have cnt: "get_contour lib im s = (Inr cnt, s')"
    using assms(1) by (simp add: get_contour_def py_defs s'_def)
  have hp: "heap s' ! im = heap s ! im" by (simp add: s'_def)
  have run: "agreement_method lib im s =
      (if a2_1 P A < 0 \<or> a2_2 P A < 0 then py_return (Some (Fin 0)) s'
       else py_bind (py_lift (py_div \<bar>a1 - a2\<bar> (a1 + a2)))
              (\<lambda>t1. py_return (Some (fl_sub (Fin 1) (np_div (fl_add (Fin t1)
                 (np_div (fl_abs (fl_sub (Fin b1) b2)) (fl_add (Fin b1) b2))) (Fin 2))))) s')"
    unfolding agreement_method_def assms(5) assms(6)
    by (simp only: py_bind_Inr [of "get_contour lib im" s cnt s', OF cnt]
        py_bind_lift_Inr [OF assms(2)] prod.case py_bind_read
        hp Let_def assms(3) [symmetric] assms(4) [symmetric] if_distribR)
  show ?thesis
    by (cases "py_div \<bar>a1 - a2\<bar> (a1 + a2)")
       (simp_all add: run py_return_def py_bind_def py_lift_def)
qed

lemma agreement_method_score:
  assumes "findContours lib (heap s ! im) = cnt # rest"
    and "get_sides_based_on_moments (cv_moments lib cnt) = Inr (a1, b1)"
    and "A = real (np_sum (heap s ! im))"
    and "P = arcLength lib cnt"
    and "\<not> (a2_1 P A < 0 \<or> a2_2 P A < 0)"
    and "0 < A"
    and "a2 = a2_1 P A"
    and "b2 = A / a2"
  shows "fst (agreement_method lib im s) =
           Inr (Some (Fin (1 - (\<bar>a1 - a2\<bar> / (a1 + a2) + \<bar>b1 - b2\<bar> / (b1 + b2)) / 2)))"
    and "0 \<le> 1 - (\<bar>a1 - a2\<bar> / (a1 + a2) + \<bar>b1 - b2\<bar> / (b1 + b2)) / 2"
    and "1 - (\<bar>a1 - a2\<bar> / (a1 + a2) + \<bar>b1 - b2\<bar> / (b1 + b2)) / 2 \<le> 1"
proof -
  have nn: "0 \<le> a1" "0 \<le> b1" using get_sides_nonneg [OF assms(2)] by simp_all
  have sel: "a2 = (if a2_1 P A > a2_2 P A then a2_1 P A else a2_2 P A)"
    using roots_ordered [of P A] assms(7) by simp
  have a2pos: "0 < a2" using larger_root_positive [OF assms(5,6)] assms(7) by simp
  have bpos: "0 < b2" using a2pos assms(6,8) by simp
  have d1: "py_div \<bar>a1 - a2\<bar> (a1 + a2) = Inr (\<bar>a1 - a2\<bar> / (a1 + a2))"
    using nn a2pos by (simp add: py_div_def)
  have d2: "np_div (Fin A) (Fin a2) = Fin b2" using a2pos assms(8) by simp
  have d3: "np_div (fl_abs (fl_sub (Fin b1) (Fin b2))) (fl_add (Fin b1) (Fin b2))
      = Fin (\<bar>b1 - b2\<bar> / (b1 + b2))"
    using nn bpos by (simp add: fl_sub_def)
  show "fst (agreement_method lib im s) =
           Inr (Some (Fin (1 - (\<bar>a1 - a2\<bar> / (a1 + a2) + \<bar>b1 - b2\<bar> / (b1 + b2)) / 2)))"
    using assms(5)
    by (simp only: agreement_method_run [OF assms(1,2,3,4) sel refl] if_False d1 d2 d3 sum.case)
       (simp add: fl_sub_def)
  have t1: "\<bar>a1 - a2\<bar> / (a1 + a2) \<le> 1" "0 \<le> \<bar>a1 - a2\<bar> / (a1 + a2)"
    using nn a2pos by simp_all
  have t2: "\<bar>b1 - b2\<bar> / (b1 + b2) \<le> 1" "0 \<le> \<bar>b1 - b2\<bar> / (b1 + b2)"
    using nn bpos by simp_all
  show "0 \<le> 1 - (\<bar>a1 - a2\<bar> / (a1 + a2) + \<bar>b1 - b2\<bar> / (b1 + b2)) / 2"
    using t1 t2 by simp
  show "1 - (\<bar>a1 - a2\<bar> / (a1 + a2) + \<bar>b1 - b2\<bar> / (b1 + b2)) / 2 \<le> 1"
    using t1 t2 by simp
qed

text \<open>
  C4, as the code has it. With \<open>P\<close> the arc length of the contour, \<open>A\<close> the sum of the mask
  and \<open>(a1, b1)\<close> the sides from the moments: the root \<open>a2_2\<close> is never above \<open>a2_1\<close>; the
  descriptor is 0 as soon as one of the two roots is negative (the test is
  \<^verbatim>\<open>a2_1 < 0 or a2_2 < 0\<close>); otherwise, for a non-empty mask, \<open>a2\<close> is the larger root,
  \<open>b2 = A / a2\<close> and the score is \<open>1 - R / 2\<close> with
  \<open>R = |a1 - a2| / (a1 + a2) + |b1 - b2| / (b1 + b2)\<close>.
\<close>

theorem agreement_method_zero_or_score:
  assumes "method = ''r_a'' \<or> method = ''Agreement method''"
    and "findContours lib (heap s ! im) = cnt # rest"
    and "get_sides_based_on_moments (cv_moments lib cnt) = Inr (a1, b1)"
    and "A = real (np_sum (heap s ! im))"
    and "P = arcLength lib cnt"
  shows "a2_2 P A \<le> a2_1 P A \<and>
         (if a2_1 P A < 0 \<or> a2_2 P A < 0
          then fst (rectangularity lib im method s) = Inr (Some (Fin 0))
          else 0 < A \<longrightarrow>
            (let a2 = max (a2_1 P A) (a2_2 P A); b2 = A / a2
             in fst (rectangularity lib im method s) =
                Inr (Some (Fin (1 - (\<bar>a1 - a2\<bar> / (a1 + a2) + \<bar>b1 - b2\<bar> / (b1 + b2)) / 2)))))"
proof -
  have br: "rectangularity lib im method = agreement_method lib im"
    using assms(1) by (elim disjE) (simp_all add: rectangularity_def)
  have mx: "max (a2_1 P A) (a2_2 P A) = a2_1 P A"
    using roots_ordered [of P A] by simp
  show ?thesis
  proof (cases "a2_1 P A < 0 \<or> a2_2 P A < 0")
    case True
    then show ?thesis
      using roots_ordered [of P A]
      by (simp add: br agreement_method_run [OF assms(2,3,4,5) refl refl])
  next
    case False
    then show ?thesis
      using roots_ordered [of P A] agreement_method_score(1) [OF assms(2,3,4,5) False _ refl refl]
      by (simp only: br mx if_False Let_def) simp
  qed
qed

lemma sqrt_16: "sqrt 16 = 4"
  by (rule real_sqrt_unique) simp_all

lemma sqrt_144: "sqrt 144 = 12"
  by (rule real_sqrt_unique) simp_all

lemma np_sum_square_mask: "np_sum square_mask = 25"
  by (simp add: np_sum_def square_mask_def sum_list_replicate)

theorem agreement_method_zero_or_score_witness:
  "findContours sample_library (heap \<lparr>heap = [square_mask], stdout = []\<rparr> ! 0) = [square_contour] \<and>
   get_sides_based_on_moments (cv_moments sample_library square_contour) = Inr (4, 4) \<and>
   real (np_sum square_mask) = 25 \<and> arcLength sample_library square_contour = 16 \<and>
   a2_1 16 25 = 7 \<and> a2_2 16 25 = 1 \<and>
   fst (rectangularity sample_library 0 ''r_a'' \<lparr>heap = [square_mask], stdout = []\<rparr>)
     = Inr (Some (Fin (487 / 583)))"
proof -
  let ?s = "\<lparr>heap = [square_mask], stdout = []\<rparr>"
  have h1: "''r_a'' = ''r_a'' \<or> ''r_a'' = ''Agreement method''" by simp
  have h2: "findContours sample_library (heap ?s ! 0) = square_contour # []"
    by (simp add: sample_library_def sample_masks_differ sample_masks_differ [symmetric])
  have h3: "get_sides_based_on_moments (cv_moments sample_library square_contour) = Inr (4, 4)"
    by (simp add: sample_library_def get_sides_based_on_moments_def res_bind_def py_sqrt_def sqrt_16)
  have h4: "(25::real) = real (np_sum (heap ?s ! 0))"
    by (simp add: np_sum_square_mask)
  have h5: "(16::real) = arcLength sample_library square_contour"
    by (simp add: sample_library_def)
  have r1: "a2_1 16 25 = 7" by (simp add: a2_1_def sqrt_144)
  have r2: "a2_2 16 25 = 1" by (simp add: a2_2_def sqrt_144)
  have "fst (rectangularity sample_library 0 ''r_a'' ?s) = Inr (Some (Fin (487 / 583)))"
    using agreement_method_zero_or_score [OF h1 h2 h3 h4 h5] by (simp add: r1 r2)
  then show ?thesis
    using h2 h3 h5 r1 r2 by (simp add: np_sum_square_mask)
qed

text \<open>
  C4, as stated, fails: for the single pixel next to the corner the perimeter is 0 and the area
  is 1, the roots are 1 and -1, so they are not both negative, and the descriptor is 0.
\<close>

theorem agreement_method_zero_with_one_negative_root:
  "arcLength sample_library [(1, 1)] = 0 \<and> np_sum corner_mask = 1 \<and>
   a2_1 0 1 = 1 \<and> a2_2 0 1 = - 1 \<and>
   fst (rectangularity sample_library 0 ''r_a'' \<lparr>heap = [corner_mask], stdout = []\<rparr>)
     = Inr (Some (Fin 0))"
proof -
  have r1: "a2_1 0 1 = 1" by (simp add: a2_1_def sqrt_16)
  have r2: "a2_2 0 1 = - 1" by (simp add: a2_2_def sqrt_16)
  have "fst (rectangularity sample_library 0 ''r_a'' \<lparr>heap = [corner_mask], stdout = []\<rparr>)
     = Inr (Some (Fin 0))"
    by (simp add: rectangularity_def agreement_method_def get_contour_def
        get_sides_based_on_moments_def sample_library_def py_defs sample_contours_differ
        np_sum_corner_mask r1 r2)
  then show ?thesis
    using r1 r2 by (simp add: sample_library_def sample_contours_differ np_sum_corner_mask)
qed

section \<open>The better of two orientations\<close>

text \<open>
  The Rectangular Discrepancy and Robust MBR methods rotate the mask by 45 degrees,
  evaluate the descriptor on the mask and then on the rotated mask, and, when both
  evaluations return a number, return the greater of the two.
\<close>

lemma returns_max_of_two_orientations:
  assumes "imutils_rotate lib im 45 s = (Inr rotated_image, s1)"
  shows "(method = ''r_d'' \<or> method = ''Rectangular Discrepancy'' \<longrightarrow>
          get_rectangular_discrepancy_descriptor lib im s1 = (Inr (Fin d0), s2) \<longrightarrow>
          get_rectangular_discrepancy_descriptor lib rotated_image s2 = (Inr (Fin d45), s3) \<longrightarrow>
          rectangularity lib im method s = (Inr (Some (Fin (max d0 d45))), s3) \<and>
          d0 \<le> max d0 d45 \<and> d45 \<le> max d0 d45) \<and>
         (method = ''r_r'' \<or> method = ''Robust MBR'' \<longrightarrow>
          get_robust_mbr_discrepancy lib im s1 = (Inr (Fin d0), s2) \<longrightarrow>
          get_robust_mbr_discrepancy lib rotated_image s2 = (Inr (Fin d45), s3) \<longrightarrow>
          rectangularity lib im method s = (Inr (Some (Fin (max d0 d45))), s3) \<and>
          d0 \<le> max d0 d45 \<and> d45 \<le> max d0 d45)"
proof -
  have pick: "py_bind (imutils_rotate lib im 45) (\<lambda>rotated_image.
        py_bind (d lib im) (\<lambda>straight_image_descriptor.
        py_bind (d lib rotated_image) (\<lambda>rotated_image_descriptor.
          if fl_gt straight_image_descriptor rotated_image_descriptor
          then py_return (Some straight_image_descriptor)
          else py_return (Some rotated_image_descriptor)))) s
      = (Inr (Some (Fin (max d0 d45))), s3)"
    if "d lib im s1 = (Inr (Fin d0), s2)" and "d lib rotated_image s2 = (Inr (Fin d45), s3)"
    for d :: "library \<Rightarrow> ref \<Rightarrow> fl py"
    using assms that by (simp add: py_bind_def py_return_def max_def)
  show ?thesis
  proof (intro conjI impI)
    assume m: "method = ''r_d'' \<or> method = ''Rectangular Discrepancy''"
      and "get_rectangular_discrepancy_descriptor lib im s1 = (Inr (Fin d0), s2)"
      and "get_rectangular_discrepancy_descriptor lib rotated_image s2 = (Inr (Fin d45), s3)"
    then show "rectangularity lib im method s = (Inr (Some (Fin (max d0 d45))), s3)"
      using pick [of get_rectangular_discrepancy_descriptor]
      by (elim disjE) (simp_all add: rectangularity_def)
  next
    assume m: "method = ''r_r'' \<or> method = ''Robust MBR''"
      and "get_robust_mbr_discrepancy lib im s1 = (Inr (Fin d0), s2)"
      and "get_robust_mbr_discrepancy lib rotated_image s2 = (Inr (Fin d45), s3)"
    then show "rectangularity lib im method s = (Inr (Some (Fin (max d0 d45))), s3)"
      using pick [of get_robust_mbr_discrepancy]
      by (elim disjE) (simp_all add: rectangularity_def)
  qed simp_all
qed

lemma clipped_region_corner_mask: "clipped_region corner_mask [(1, 1)] = 0"
  by (simp add: clipped_region_def boundingRect_def np_slice2_def py_slice_def np_sum_def
      corner_mask_def)

lemma paint_unchanged:
  assumes "\<And>r c. covered (r, c) \<Longrightarrow> r < length img \<Longrightarrow> c < length (img ! r) \<Longrightarrow>
             img ! r ! c = color"
  shows "paint covered color img = img"
proof (rule nth_equalityI)
  show "length (paint covered color img) = length img" by (simp add: paint_def)
next
  fix i assume "i < length (paint covered color img)"
  then have i: "i < length img" by (simp add: paint_def)
  have "paint covered color img ! i =
      map (\<lambda>(c, p). if covered (i, c) then color else p) (zip [0 ..< length (img ! i)] (img ! i))"
    using i by (simp add: paint_def)
  also have "\<dots> = img ! i"
  proof (rule nth_equalityI)
    show "length (map (\<lambda>(c, p). if covered (i, c) then color else p)
        (zip [0 ..< length (img ! i)] (img ! i))) = length (img ! i)" by simp
  next
    fix j assume "j < length (map (\<lambda>(c, p). if covered (i, c) then color else p)
        (zip [0 ..< length (img ! i)] (img ! i)))"
    then have j: "j < length (img ! i)" by simp
    then show "map (\<lambda>(c, p). if covered (i, c) then color else p)
        (zip [0 ..< length (img ! i)] (img ! i)) ! j = img ! i ! j"
      using assms [of i j] i by simp
  qed
  finally show "paint covered color img ! i = img ! i" .
qed

lemma paint_corner_mask:
  "paint (\<lambda>(r, c). Suc 0 \<le> c \<and> c < 2 \<and> Suc 0 \<le> r \<and> r < 2) 1 corner_mask = corner_mask"
proof (rule paint_unchanged)
  fix r c :: nat
  assume "case (r, c) of (r, c) \<Rightarrow> Suc 0 \<le> c \<and> c < 2 \<and> Suc 0 \<le> r \<and> r < 2"
  then have "r = 1" "c = 1" by simp_all
  then show "corner_mask ! r ! c = 1" by (simp add: corner_mask_def)
qed

text \<open>
  C7. The mask whose only foreground pixel is next to the corner is not empty, and its
  score at 0 degrees is 0 for both methods. The maximum of the two orientations would be
  a number that is at least 0; the Rectangular Discrepancy and the Robust MBR methods
  return no number: the evaluation on the rotated mask, which is empty, raises
  \<open>IndexError\<close>.
\<close>

theorem no_maximum_returned_on_corner_pixel:
  "np_sum corner_mask = 1 \<and>
   imutils_rotate sample_library 0 45 \<lparr>heap = [corner_mask], stdout = []\<rparr>
     = (Inr 1, \<lparr>heap = [corner_mask, blank_mask], stdout = []\<rparr>) \<and>
   fst (get_rectangular_discrepancy_descriptor sample_library 0
          \<lparr>heap = [corner_mask, blank_mask], stdout = []\<rparr>) = Inr (Fin 0) \<and>
   fst (get_robust_mbr_discrepancy sample_library 0
          \<lparr>heap = [corner_mask, blank_mask], stdout = []\<rparr>) = Inr (Fin 0) \<and>
   fst (rectangularity sample_library 0 ''Rectangular Discrepancy''
          \<lparr>heap = [corner_mask], stdout = []\<rparr>) = Inl IndexError \<and>
   fst (rectangularity sample_library 0 ''Robust MBR''
          \<lparr>heap = [corner_mask], stdout = []\<rparr>) = Inl IndexError"
proof -
  let ?s0 = "\<lparr>heap = [corner_mask], stdout = []\<rparr>"
  let ?s1 = "\<lparr>heap = [corner_mask, blank_mask], stdout = []\<rparr>"
  have rot: "imutils_rotate sample_library 0 45 ?s0 = (Inr 1, ?s1)"
    by (simp add: sample_library_def py_defs sample_masks_differ sample_masks_differ [symmetric])
  have d0: "fst (get_rectangular_discrepancy_descriptor sample_library 0 ?s1) = Inr (Fin 0)"
    by (simp add: get_rectangular_discrepancy_descriptor_def get_contour_def
        get_sides_based_on_moments_def sample_library_def py_defs sample_contours_differ Let_def)
  have e0: "fst (get_robust_mbr_discrepancy sample_library 0 ?s1) = Inr (Fin 0)"
    by (simp add: get_robust_mbr_discrepancy_def get_mbr_areas_def get_contour_def
        get_sides_based_on_moments_def sample_library_def py_defs sample_contours_differ Let_def
        boundingRect_def int0_def paint_corner_mask np_sum_corner_mask
        clipped_region_corner_mask u64_sub_def fl_sub_def nth_append)
  have rd: "fst (rectangularity sample_library 0 ''Rectangular Discrepancy'' ?s0) = Inl IndexError"
    by (simp add: rectangularity_def get_rectangular_discrepancy_descriptor_def get_contour_def
        get_sides_based_on_moments_def sample_library_def py_defs sample_masks_differ
        sample_masks_differ [symmetric] sample_contours_differ Let_def nth_append)
  have rr: "fst (rectangularity sample_library 0 ''Robust MBR'' ?s0) = Inl IndexError"
    by (simp add: rectangularity_def get_robust_mbr_discrepancy_def get_contour_def
        get_mbr_areas_def get_sides_based_on_moments_def sample_library_def py_defs
        sample_masks_differ sample_masks_differ [symmetric] sample_contours_differ Let_def
        nth_append)
  show ?thesis
    using rot d0 e0 rd rr np_sum_corner_mask by simp
qed

section \<open>The range of the scores that are returned\<close>

text \<open>
  Where the methods return a number, it is in the unit interval: the score of one
  orientation for the Rectangular Discrepancy; the same for the Robust MBR, except that a
  zero \<open>mbr_area\<close> can give a NaN; the MBR ratio for a non-empty mask of zeros and ones;
  the Agreement method for a non-empty mask. These lemmas say nothing of the calls that
  raise.
\<close>

lemma rectangular_discrepancy_in_unit_interval:
  assumes "get_rectangular_discrepancy_descriptor lib im s = (Inr v, s')"
  shows "\<exists>d. v = Fin d \<and> 0 \<le> d \<and> d \<le> 1"
proof -
  obtain r1 s1 where c: "get_contour lib im s = (r1, s1)" by (cases "get_contour lib im s")
  show ?thesis
  proof (cases r1)
    case (Inl e)
    with assms c show ?thesis
      by (simp add: get_rectangular_discrepancy_descriptor_def py_bind_def)
  next
    case (Inr cnt)
    show ?thesis
    proof (cases "get_sides_based_on_moments (cv_moments lib cnt)")
      case (Inl e)
      with assms c Inr show ?thesis
        by (simp add: get_rectangular_discrepancy_descriptor_def py_bind_def py_lift_def)
    next
      case sides: (Inr ab)
      obtain a b where ab: "ab = (a, b)" by (cases ab)
      show ?thesis
      proof (cases "a * b = 0")
        case True
        with assms c Inr sides ab show ?thesis
          by (auto simp: get_rectangular_discrepancy_descriptor_def py_defs Let_def)
      next
        case False
        with assms c Inr sides ab show ?thesis
          by (auto simp: get_rectangular_discrepancy_descriptor_def py_defs Let_def fl_sub_def
              split: if_splits)
      qed
    qed
  qed
qed

lemma row_sum_paint_mono:
  assumes "list_all (\<lambda>p. p = 0 \<or> p = 1) row"
  shows "sum_list (map unat row)
         \<le> sum_list (map unat (map (\<lambda>(c, p). if f c then 1 else p) (zip [0 ..< length row] row)))"
proof -
  have "sum_list (map unat row) = sum_list (map (unat \<circ> snd) (zip [0 ..< length row] row))"
    by (simp add: map_snd_zip flip: map_map)
  also have "\<dots> \<le> sum_list (map (\<lambda>(c, p). unat (if f c then 1 else p)) (zip [0 ..< length row] row))"
  proof (rule sum_list_mono)
    fix x assume "x \<in> set (zip [0 ..< length row] row)"
    then have "snd x \<in> set row"
      using set_zip_rightD [of "fst x" "snd x" "[0 ..< length row]" row] by simp
    with assms have "snd x = 0 \<or> snd x = 1" by (auto simp: list_all_iff)
    then show "(unat \<circ> snd) x \<le> (case x of (c, p) \<Rightarrow> unat (if f c then 1 else p))"
      by (cases x) auto
  qed
  finally show ?thesis by (simp add: comp_def case_prod_unfold)
qed

lemma np_sum_paint_mono:
  assumes "binary_mask img"
  shows "np_sum img \<le> np_sum (paint covered 1 img)"
proof -
  let ?rs = "\<lambda>row. sum_list (map unat row)"
  have "np_sum img = sum_list (map (?rs \<circ> snd) (zip [0 ..< length img] img))"
    by (simp add: np_sum_def map_snd_zip flip: map_map)
  also have "\<dots> \<le> sum_list (map (\<lambda>(r, row). ?rs (map (\<lambda>(c, p). if covered (r, c) then 1 else p)
                          (zip [0 ..< length row] row))) (zip [0 ..< length img] img))"
  proof (rule sum_list_mono)
    fix x assume "x \<in> set (zip [0 ..< length img] img)"
    then have "snd x \<in> set img"
      using set_zip_rightD [of "fst x" "snd x" "[0 ..< length img]" img] by simp
    with assms have "list_all (\<lambda>p. p = 0 \<or> p = 1) (snd x)"
      by (auto simp: binary_mask_def list_all_iff)
    from row_sum_paint_mono [OF this, of "\<lambda>c. covered (fst x, c)"]
    show "(?rs \<circ> snd) x \<le> (case x of (r, row) \<Rightarrow> ?rs (map (\<lambda>(c, p). if covered (r, c) then 1 else p)
                          (zip [0 ..< length row] row)))"
      by (cases x) simp
  qed
  also have "\<dots> = np_sum (paint covered 1 img)"
    by (simp add: np_sum_def paint_def comp_def case_prod_unfold)
  finally show ?thesis .
qed

lemma mbr_ratio_in_unit_interval:
  assumes "method = ''r_b'' \<or> method = ''Minimum Bounding Rectangle (MBR)'' \<or> method = ''mbr''"
    and "findContours lib (heap s ! im) = cnt # rest"
    and "binary_mask (heap s ! im)"
    and "0 < np_sum (heap s ! im)"
  shows "\<exists>q. fst (rectangularity lib im method s) = Inr (Some (Fin q)) \<and> 0 < q \<and> q \<le> 1"
proof -
  let ?img = "heap s ! im"
  let ?box = "map (\<lambda>(px, py). (int0 px, int0 py)) (boxPoints lib (minAreaRect lib cnt))"
  let ?mbr = "np_sum (paint (poly_covers lib ?box) 1 ?img)"
  have br: "rectangularity lib im method =
      py_bind (get_mbr_areas lib im) (\<lambda>(region_area, mbr_area).
          let R_B = np_div (Fin (real region_area)) (Fin (real mbr_area)) in
          py_return (Some R_B))"
    using assms(1) by (elim disjE) (simp_all add: rectangularity_def)
  have le: "np_sum ?img \<le> ?mbr" using assms(3) by (rule np_sum_paint_mono)
  have "fst (rectangularity lib im method s) = Inr (Some (np_div (Fin (real (np_sum ?img))) (Fin (real ?mbr))))"
    using assms(2) by (simp add: br get_mbr_areas_def get_contour_def py_defs Let_def)
  moreover have "0 < real (np_sum ?img) / real ?mbr" "real (np_sum ?img) / real ?mbr \<le> 1"
    using le assms(4) by simp_all
  ultimately show ?thesis using le assms(4) by auto
qed

lemma agreement_method_in_unit_interval:
  assumes "findContours lib (heap s ! im) = cnt # rest"
    and "get_sides_based_on_moments (cv_moments lib cnt) = Inr (a1, b1)"
    and "0 < np_sum (heap s ! im)"
  shows "\<exists>d. fst (agreement_method lib im s) = Inr (Some (Fin d)) \<and> 0 \<le> d \<and> d \<le> 1"
proof -
  define A where "A = real (np_sum (heap s ! im))"
  define P where "P = arcLength lib cnt"
  show ?thesis
  proof (cases "a2_1 P A < 0 \<or> a2_2 P A < 0")
    case True
    then have "fst (agreement_method lib im s) = Inr (Some (Fin 0))"
      by (simp add: agreement_method_run [OF assms(1,2) A_def P_def refl refl])
    then show ?thesis by simp
  next
    case False
    have "0 < A" using assms(3) by (simp add: A_def)
    from agreement_method_score [OF assms(1,2) A_def P_def False this refl refl]
    show ?thesis by blast
  qed
qed

lemma clamp_range_or_NaN:
  "(let R = fl_abs (fl_sub (Fin 1) (np_div (Fin x) (Fin b)))
    in if fl_gt R (Fin 1) then Fin 1 else R) = NaN \<or>
   (\<exists>d. (let R = fl_abs (fl_sub (Fin 1) (np_div (Fin x) (Fin b)))
         in if fl_gt R (Fin 1) then Fin 1 else R) = Fin d \<and> 0 \<le> d \<and> d \<le> 1)"
  by (simp add: fl_sub_def Let_def)

lemma robust_mbr_in_unit_interval_or_NaN:
  assumes "get_robust_mbr_discrepancy lib im s = (Inr v, s')"
  shows "v = NaN \<or> (\<exists>d. v = Fin d \<and> 0 \<le> d \<and> d \<le> 1)"
proof -
  obtain r1 s1 where c: "get_contour lib im s = (r1, s1)" by (cases "get_contour lib im s")
  show ?thesis
  proof (cases r1)
    case (Inl e)
    with assms c show ?thesis
      by (simp add: get_robust_mbr_discrepancy_def py_bind_def)
  next
    case (Inr cnt)
    obtain r2 s2 where m: "get_mbr_areas lib im s1 = (r2, s2)" by (cases "get_mbr_areas lib im s1")
    show ?thesis
    proof (cases r2)
      case (Inl e)
      with assms c Inr m show ?thesis
        by (simp add: get_robust_mbr_discrepancy_def py_bind_def)
    next
      case areas: (Inr ra)
      obtain region_area mbr_area where ra: "ra = (region_area, mbr_area)" by (cases ra)
      show ?thesis
      proof (cases "get_sides_based_on_moments (cv_moments lib cnt)")
        case (Inl e)
        with assms c Inr m areas ra show ?thesis
          by (simp add: get_robust_mbr_discrepancy_def py_bind_def py_lift_def)
      next
        case sides: (Inr ab)
        obtain a b where ab: "ab = (a, b)" by (cases ab)
        from assms c Inr m areas ra sides ab
        have "v = (let R = fl_abs (fl_sub (Fin 1) (np_div
                 (Fin (a * b - real (clipped_region (heap s2 ! im) cnt)
                       + real (u64_sub region_area (clipped_region (heap s2 ! im) cnt))))
                 (Fin (real mbr_area))))
               in if fl_gt R (Fin 1) then Fin 1 else R)"
          by (auto simp: get_robust_mbr_discrepancy_def py_defs Let_def split: if_splits)
        then show ?thesis using clamp_range_or_NaN by metis
      qed
    qed
  qed
qed

end
